theory Spec2Isabelle
  imports Complex_Main
begin

section \<open>Decimal arithmetic\<close>

text \<open>
  The calculator works on Python \<open>Decimal\<close> values. A finite \<open>Decimal\<close> denotes a
  rational number, so a \<open>Decimal\<close> is modelled by the rational it denotes, and
  \<open>Decimal(str(x))\<close> on an argument is the identity. The model computes with exact values.
  The context precision of 28 significant digits is outside it: the model agrees with the
  program as long as those digits hold every sum, difference and product exactly and lose
  of a quotient only digits that cannot change its rounding to cents, which is so for
  amounts of any realistic size. The special values (infinities, NaN) are not inputs.

  \<open>d.quantize(Decimal('0.01'), ROUND_HALF_UP)\<close> rounds to two fractional digits, ties going
  away from zero. \<open>round_cents\<close> is the coefficient of the quantized value.
\<close>

type_synonym decimal = rat

definition round_cents :: "decimal \<Rightarrow> int" where
  "round_cents x = (if 0 \<le> x then \<lfloor>x * 100 + 1 / 2\<rfloor> else - \<lfloor>- x * 100 + 1 / 2\<rfloor>)"

definition quantize2 :: "decimal \<Rightarrow> decimal" where
  "quantize2 x = of_int (round_cents x) / 100"

section \<open>Configuration (config.py)\<close>

text \<open>
  The upper limit of a bracket is a finite amount or \<open>Decimal('inf')\<close>. The descriptions
  are kept without their euro signs; no calculation reads them.
\<close>

datatype limit = Bounded decimal | Unbounded

record TaxBracket =
  upper_limit :: limit
  rate :: decimal
  description :: string

definition INCOME_TAX_BRACKETS :: "TaxBracket list" where
  "INCOME_TAX_BRACKETS =
    [\<lparr>upper_limit = Bounded 10000, rate = 9 / 100, description = ''0 - 10,000: 9%''\<rparr>,
     \<lparr>upper_limit = Bounded 20000, rate = 22 / 100, description = ''10,001 - 20,000: 22%''\<rparr>,
     \<lparr>upper_limit = Bounded 30000, rate = 28 / 100, description = ''20,001 - 30,000: 28%''\<rparr>,
     \<lparr>upper_limit = Bounded 40000, rate = 36 / 100, description = ''30,001 - 40,000: 36%''\<rparr>,
     \<lparr>upper_limit = Unbounded, rate = 44 / 100, description = ''Over 40,000: 44%''\<rparr>]"

definition VAT_RATE :: decimal where
  "VAT_RATE = 24 / 100"

definition EFKA_MAIN_RATE :: decimal where
  "EFKA_MAIN_RATE = 1333 / 10000"

definition EFKA_ADDITIONAL_RATE :: decimal where
  "EFKA_ADDITIONAL_RATE = 667 / 10000"

definition EFKA_TOTAL_RATE :: decimal where
  "EFKA_TOTAL_RATE = EFKA_MAIN_RATE + EFKA_ADDITIONAL_RATE"

definition VALID_FREQUENCIES :: "string list" where
  "VALID_FREQUENCIES = [''monthly'', ''quarterly'', ''annual'']"

section \<open>Result objects (models.py)\<close>

text \<open>
  \<open>bracket_max\<close> is a \<open>Union[Decimal, str]\<close>: the upper bound of the bracket, or the string
  \<open>'unlimited'\<close> for the top bracket. Several classes have a field \<open>rate\<close>; the record
  fields carry a prefix to tell them apart.
\<close>

datatype decimal_or_str = Dec decimal | Str string

record BracketBreakdown =
  bracket_min :: decimal
  bracket_max :: decimal_or_str
  bb_rate :: decimal
  taxable_amount :: decimal
  tax_amount :: decimal

record IncomeTaxBreakdown =
  total_tax :: decimal
  effective_rate :: decimal
  bracket_breakdown :: "BracketBreakdown list"

record VATCalculation =
  vat_amount :: decimal
  vat_rate :: decimal

record SocialSecurityCalculation =
  total_contribution :: decimal
  main_insurance :: decimal
  additional_contributions :: decimal
  ss_rate :: decimal

record TaxCalculationResult =
  gross_income :: decimal
  deductible_expenses :: decimal
  taxable_income :: decimal
  income_tax :: IncomeTaxBreakdown
  vat :: VATCalculation
  social_security :: SocialSecurityCalculation
  total_taxes :: decimal
  total_obligations :: decimal
  net_income :: decimal
  effective_total_rate :: decimal

record PaymentInstallment =
  period_number :: int
  payment_amount :: decimal

record PaymentSchedule =
  annual_total :: decimal
  frequency :: string
  number_of_installments :: int
  installment_amount :: decimal
  schedule :: "PaymentInstallment list"

section \<open>The calculators (tax\_calculator.py)\<close>

definition calculate_taxable_income :: "decimal \<Rightarrow> decimal \<Rightarrow> decimal" where
  "calculate_taxable_income gross expenses = quantize2 (max 0 (gross - expenses))"

text \<open>
  The body of the \<open>for\<close> loop over the brackets, with its four loop variables as arguments:
  the remaining income, the previous bracket limit, the running total and the lines emitted
  so far. The \<open>break\<close> on \<open>remaining_income <= 0\<close> returns the state reached.
\<close>

fun income_tax_loop ::
  "TaxBracket list \<Rightarrow> decimal \<Rightarrow> decimal \<Rightarrow> decimal \<Rightarrow> BracketBreakdown list
    \<Rightarrow> decimal \<times> BracketBreakdown list" where
  "income_tax_loop [] remaining previous tot bd = (tot, bd)"
| "income_tax_loop (bracket # brackets) remaining previous tot bd =
    (if remaining \<le> 0 then (tot, bd)
     else
       let taxable_in_bracket =
             (case upper_limit bracket of
                Unbounded \<Rightarrow> remaining
              | Bounded bracket_limit \<Rightarrow> min remaining (bracket_limit - previous));
           tax_in_bracket = taxable_in_bracket * rate bracket;
           line = \<lparr>bracket_min = quantize2 previous,
                   bracket_max =
                     (case upper_limit bracket of
                        Unbounded \<Rightarrow> Str ''unlimited''
                      | Bounded bracket_limit \<Rightarrow> Dec (quantize2 bracket_limit)),
                   bb_rate = quantize2 (rate bracket * 100),
                   taxable_amount = quantize2 taxable_in_bracket,
                   tax_amount = quantize2 tax_in_bracket\<rparr>
       in income_tax_loop brackets
            (remaining - taxable_in_bracket)
            (case upper_limit bracket of Unbounded \<Rightarrow> previous | Bounded bracket_limit \<Rightarrow> bracket_limit)
            (tot + tax_in_bracket)
            (bd @ [line]))"

definition calculate_income_tax :: "decimal \<Rightarrow> IncomeTaxBreakdown" where
  "calculate_income_tax income =
    (if income \<le> 0 then
       \<lparr>total_tax = 0, effective_rate = 0, bracket_breakdown = []\<rparr>
     else
       let (tot, bd) = income_tax_loop INCOME_TAX_BRACKETS income 0 0 [];
           rate_pct = (if income > 0 then tot / income * 100 else 0)
       in \<lparr>total_tax = quantize2 tot,
           effective_rate = quantize2 rate_pct,
           bracket_breakdown = bd\<rparr>)"

definition calculate_vat :: "decimal \<Rightarrow> VATCalculation" where
  "calculate_vat gross =
    (if gross \<le> 0 then
       \<lparr>vat_amount = 0, vat_rate = quantize2 (VAT_RATE * 100)\<rparr>
     else
       \<lparr>vat_amount = quantize2 (gross * VAT_RATE), vat_rate = quantize2 (VAT_RATE * 100)\<rparr>)"

definition calculate_social_security :: "decimal \<Rightarrow> SocialSecurityCalculation" where
  "calculate_social_security gross =
    (if gross \<le> 0 then
       \<lparr>total_contribution = 0, main_insurance = 0, additional_contributions = 0,
        ss_rate = quantize2 (EFKA_TOTAL_RATE * 100)\<rparr>
     else
       \<lparr>total_contribution = quantize2 (gross * EFKA_TOTAL_RATE),
        main_insurance = quantize2 (gross * EFKA_MAIN_RATE),
        additional_contributions = quantize2 (gross * EFKA_ADDITIONAL_RATE),
        ss_rate = quantize2 (EFKA_TOTAL_RATE * 100)\<rparr>)"

definition calculate_all_taxes :: "decimal \<Rightarrow> decimal \<Rightarrow> TaxCalculationResult" where
  "calculate_all_taxes gross expenses =
    (if gross \<le> 0 then
       \<lparr>gross_income = quantize2 gross,
        deductible_expenses = quantize2 expenses,
        taxable_income = 0,
        income_tax = calculate_income_tax 0,
        vat = calculate_vat 0,
        social_security = calculate_social_security 0,
        total_taxes = 0,
        total_obligations = 0,
        net_income = 0,
        effective_total_rate = 0\<rparr>
     else
       let taxable = calculate_taxable_income gross expenses;
           itax = calculate_income_tax taxable;
           v = calculate_vat gross;
           ss = calculate_social_security gross;
           taxes = total_tax itax + total_contribution ss;
           obligations = taxes + vat_amount v;
           net = gross - taxes;
           total_rate = (if gross > 0 then taxes / gross * 100 else 0)
       in \<lparr>gross_income = quantize2 gross,
           deductible_expenses = quantize2 expenses,
           taxable_income = taxable,
           income_tax = itax,
           vat = v,
           social_security = ss,
           total_taxes = quantize2 taxes,
           total_obligations = quantize2 obligations,
           net_income = quantize2 net,
           effective_total_rate = quantize2 total_rate\<rparr>)"

text \<open>
  Strings are byte lists. \<open>str.lower\<close> is modelled on the ASCII letters; no character outside
  ASCII lowers to a letter of a valid frequency name, so the membership test agrees.
\<close>

datatype error =
  ValueError string | KeyError string | TypeError | AttributeError | InvalidOperation

definition lower_char :: "char \<Rightarrow> char" where
  "lower_char c =
    (let n = (of_char c :: nat) in if 65 \<le> n \<and> n \<le> 90 then char_of (n + 32) else c)"

definition str_lower :: "string \<Rightarrow> string" where
  "str_lower s = map lower_char s"

fun str_join :: "string \<Rightarrow> string list \<Rightarrow> string" where
  "str_join sep [] = []"
| "str_join sep [x] = x"
| "str_join sep (x # y # ys) = x @ sep @ str_join sep (y # ys)"

definition payments_per_year :: "(string \<times> int) list" where
  "payments_per_year = [(''monthly'', 12), (''quarterly'', 4), (''annual'', 1)]"

definition calculate_payment_schedule :: "decimal \<Rightarrow> string \<Rightarrow> error + PaymentSchedule" where
  "calculate_payment_schedule annual_tax freq =
    (let annual = (if annual_tax < 0 then 0 else annual_tax) in
     if str_lower freq \<notin> set VALID_FREQUENCIES then
       Inl (ValueError (''Invalid frequency '' @ [CHR 0x27] @ freq @ [CHR 0x27]
              @ ''. Must be one of: '' @ str_join '', '' VALID_FREQUENCIES))
     else
       let f = str_lower freq in
       case map_of payments_per_year f of
         None \<Rightarrow> Inl (KeyError f)
       | Some num_payments \<Rightarrow>
           let payment = annual / of_int num_payments in
           Inr \<lparr>annual_total = quantize2 annual,
                frequency = f,
                number_of_installments = num_payments,
                installment_amount = quantize2 payment,
                schedule =
                  map (\<lambda>i. \<lparr>period_number = i, payment_amount = quantize2 payment\<rparr>)
                    [1..num_payments]\<rparr>)"

section \<open>Serialisation (models.py)\<close>

text \<open>
  \<open>to_dict\<close> builds a plain dictionary whose values are strings, nested dictionaries and
  lists; \<open>from_dict\<close> reads one back. \<open>pyobj\<close> is the type of such values, a dictionary
  being the list of its items in insertion order.
\<close>

datatype pyobj = PStr string | PInt int | PList "pyobj list" | PDict "(string \<times> pyobj) list"

text \<open>
  \<open>str(d)\<close> for a \<open>Decimal\<close> of exponent \<open>-2\<close>, which is what \<open>quantize\<close> returns and what
  every field of a result object holds: an optional sign, the integer digits, a point and
  two fractional digits. (Python keeps the sign of a zero that was rounded from a negative
  value and prints \<open>-0.00\<close>; the model prints \<open>0.00\<close>. Both read back as zero.)
\<close>

definition digit_char :: "nat \<Rightarrow> char" where
  "digit_char d = char_of (48 + d)"

fun str_nat :: "nat \<Rightarrow> string" where
  "str_nat n = (if n < 10 then [digit_char n] else str_nat (n div 10) @ [digit_char (n mod 10)])"

definition str_decimal :: "decimal \<Rightarrow> string" where
  "str_decimal x =
    (let k = \<lfloor>x * 100\<rfloor>; a = nat \<bar>k\<bar> in
     (if k < 0 then ''-'' else []) @ str_nat (a div 100) @ ''.''
       @ [digit_char (a div 10 mod 10), digit_char (a mod 10)])"

text \<open>
  \<open>Decimal(s)\<close> for a string in plain notation: an optional sign, digits, and optionally a
  point and more digits, with at least one digit in all. Any other string is rejected
  (\<open>InvalidOperation\<close>); exponent notation, surrounding blanks, underscores between
  digits and the special values are not modelled.
\<close>

definition is_digit :: "char \<Rightarrow> bool" where
  "is_digit c = (let n = (of_char c :: nat) in 48 \<le> n \<and> n \<le> 57)"

definition digit_val :: "char \<Rightarrow> nat" where
  "digit_val c = of_char c - 48"

definition nat_of_digits :: "string \<Rightarrow> nat" where
  "nat_of_digits s = foldl (\<lambda>a c. 10 * a + digit_val c) 0 s"

definition split_sign :: "string \<Rightarrow> bool \<times> string" where
  "split_sign s =
    (case s of
       [] \<Rightarrow> (False, s)
     | c # r \<Rightarrow>
         if c = CHR ''-'' then (True, r)
         else if c = CHR ''+'' then (False, r)
         else (False, s))"

definition Decimal_of_str :: "string \<Rightarrow> decimal option" where
  "Decimal_of_str s =
    (let (neg, body) = split_sign s;
         ip = takeWhile (\<lambda>c. c \<noteq> CHR ''.'') body;
         fp = drop 1 (dropWhile (\<lambda>c. c \<noteq> CHR ''.'') body);
         ds = ip @ fp
     in if ds \<noteq> [] \<and> list_all is_digit ds then
          Some ((if neg then - 1 else 1) * (of_nat (nat_of_digits ds) / 10 ^ length fp))
        else None)"

text \<open>\<open>Decimal(str(v))\<close> for a value read from a dictionary.\<close>

definition to_Decimal :: "pyobj \<Rightarrow> error + decimal" where
  "to_Decimal v =
    (case v of
       PStr s \<Rightarrow> (case Decimal_of_str s of None \<Rightarrow> Inl InvalidOperation | Some d \<Rightarrow> Inr d)
     | PInt i \<Rightarrow> Inr (of_int i)
     | _ \<Rightarrow> Inl InvalidOperation)"

text \<open>
  \<open>data[key]\<close> and \<open>data.get(key, default)\<close> with a string key: only a dictionary can be
  indexed by a string, and only a dictionary has \<open>get\<close>.
\<close>

definition getitem :: "pyobj \<Rightarrow> string \<Rightarrow> error + pyobj" where
  "getitem data k =
    (case data of
       PDict items \<Rightarrow> (case map_of items k of None \<Rightarrow> Inl (KeyError k) | Some v \<Rightarrow> Inr v)
     | _ \<Rightarrow> Inl TypeError)"

definition get_default :: "pyobj \<Rightarrow> string \<Rightarrow> pyobj \<Rightarrow> error + pyobj" where
  "get_default data k d =
    (case data of
       PDict items \<Rightarrow> (case map_of items k of None \<Rightarrow> Inr d | Some v \<Rightarrow> Inr v)
     | _ \<Rightarrow> Inl AttributeError)"

text \<open>
  The elements a \<open>for\<close> clause draws from a value: those of a list, the characters of a
  string, the keys of a dictionary; an integer is not iterable.
\<close>

definition iterate :: "pyobj \<Rightarrow> error + pyobj list" where
  "iterate v =
    (case v of
       PList xs \<Rightarrow> Inr xs
     | PStr s \<Rightarrow> Inr (map (\<lambda>c. PStr [c]) s)
     | PDict items \<Rightarrow> Inr (map (\<lambda>(k, _). PStr k) items)
     | PInt _ \<Rightarrow> Inl TypeError)"

text \<open>Sequencing of steps that may raise: the first error ends the computation.\<close>

definition bind_err :: "error + 'a \<Rightarrow> ('a \<Rightarrow> error + 'b) \<Rightarrow> error + 'b" where
  "bind_err m f = (case m of Inl e \<Rightarrow> Inl e | Inr x \<Rightarrow> f x)"

fun map_err :: "('a \<Rightarrow> error + 'b) \<Rightarrow> 'a list \<Rightarrow> error + 'b list" where
  "map_err f [] = Inr []"
| "map_err f (x # xs) = bind_err (f x) (\<lambda>y. bind_err (map_err f xs) (\<lambda>ys. Inr (y # ys)))"

definition BracketBreakdown_to_dict :: "BracketBreakdown \<Rightarrow> pyobj" where
  "BracketBreakdown_to_dict b =
    PDict [(''bracket_min'', PStr (str_decimal (bracket_min b))),
           (''bracket_max'',
              (case bracket_max b of Dec d \<Rightarrow> PStr (str_decimal d) | Str s \<Rightarrow> PStr s)),
           (''rate'', PStr (str_decimal (bb_rate b))),
           (''taxable_amount'', PStr (str_decimal (taxable_amount b))),
           (''tax_amount'', PStr (str_decimal (tax_amount b)))]"

definition BracketBreakdown_from_dict :: "pyobj \<Rightarrow> error + BracketBreakdown" where
  "BracketBreakdown_from_dict data =
    bind_err (getitem data ''bracket_max'') (\<lambda>bmax.
    bind_err (if bmax \<noteq> PStr ''unlimited''
              then bind_err (to_Decimal bmax) (\<lambda>d. Inr (Dec d))
              else Inr (Str ''unlimited'')) (\<lambda>bmax'.
    bind_err (bind_err (getitem data ''bracket_min'') to_Decimal) (\<lambda>bmin.
    bind_err (bind_err (getitem data ''rate'') to_Decimal) (\<lambda>r.
    bind_err (bind_err (getitem data ''taxable_amount'') to_Decimal) (\<lambda>ta.
    bind_err (bind_err (getitem data ''tax_amount'') to_Decimal) (\<lambda>tx.
    Inr \<lparr>bracket_min = bmin, bracket_max = bmax', bb_rate = r,
         taxable_amount = ta, tax_amount = tx\<rparr>))))))"

definition IncomeTaxBreakdown_to_dict :: "IncomeTaxBreakdown \<Rightarrow> pyobj" where
  "IncomeTaxBreakdown_to_dict t =
    PDict [(''total_tax'', PStr (str_decimal (total_tax t))),
           (''effective_rate'', PStr (str_decimal (effective_rate t))),
           (''bracket_breakdown'', PList (map BracketBreakdown_to_dict (bracket_breakdown t)))]"

definition IncomeTaxBreakdown_from_dict :: "pyobj \<Rightarrow> error + IncomeTaxBreakdown" where
  "IncomeTaxBreakdown_from_dict data =
    bind_err (bind_err (getitem data ''total_tax'') to_Decimal) (\<lambda>tt.
    bind_err (bind_err (getitem data ''effective_rate'') to_Decimal) (\<lambda>er.
    bind_err (get_default data ''bracket_breakdown'' (PList [])) (\<lambda>bs.
    bind_err (bind_err (iterate bs) (map_err BracketBreakdown_from_dict)) (\<lambda>bd.
    Inr \<lparr>total_tax = tt, effective_rate = er, bracket_breakdown = bd\<rparr>))))"

definition VATCalculation_to_dict :: "VATCalculation \<Rightarrow> pyobj" where
  "VATCalculation_to_dict v =
    PDict [(''vat_amount'', PStr (str_decimal (vat_amount v))),
           (''rate'', PStr (str_decimal (vat_rate v)))]"

definition VATCalculation_from_dict :: "pyobj \<Rightarrow> error + VATCalculation" where
  "VATCalculation_from_dict data =
    bind_err (bind_err (getitem data ''vat_amount'') to_Decimal) (\<lambda>va.
    bind_err (bind_err (getitem data ''rate'') to_Decimal) (\<lambda>r.
    Inr \<lparr>vat_amount = va, vat_rate = r\<rparr>))"

definition SocialSecurityCalculation_to_dict :: "SocialSecurityCalculation \<Rightarrow> pyobj" where
  "SocialSecurityCalculation_to_dict c =
    PDict [(''total_contribution'', PStr (str_decimal (total_contribution c))),
           (''main_insurance'', PStr (str_decimal (main_insurance c))),
           (''additional_contributions'', PStr (str_decimal (additional_contributions c))),
           (''rate'', PStr (str_decimal (ss_rate c)))]"

definition SocialSecurityCalculation_from_dict ::
  "pyobj \<Rightarrow> error + SocialSecurityCalculation" where
  "SocialSecurityCalculation_from_dict data =
    bind_err (bind_err (getitem data ''total_contribution'') to_Decimal) (\<lambda>tc.
    bind_err (bind_err (getitem data ''main_insurance'') to_Decimal) (\<lambda>mi.
    bind_err (bind_err (getitem data ''additional_contributions'') to_Decimal) (\<lambda>ac.
    bind_err (bind_err (getitem data ''rate'') to_Decimal) (\<lambda>r.
    Inr \<lparr>total_contribution = tc, main_insurance = mi, additional_contributions = ac,
         ss_rate = r\<rparr>))))"

definition TaxCalculationResult_to_dict :: "TaxCalculationResult \<Rightarrow> pyobj" where
  "TaxCalculationResult_to_dict r =
    PDict [(''gross_income'', PStr (str_decimal (gross_income r))),
           (''deductible_expenses'', PStr (str_decimal (deductible_expenses r))),
           (''taxable_income'', PStr (str_decimal (taxable_income r))),
           (''income_tax'', IncomeTaxBreakdown_to_dict (income_tax r)),
           (''vat'', VATCalculation_to_dict (vat r)),
           (''social_security'', SocialSecurityCalculation_to_dict (social_security r)),
           (''total_taxes'', PStr (str_decimal (total_taxes r))),
           (''total_obligations'', PStr (str_decimal (total_obligations r))),
           (''net_income'', PStr (str_decimal (net_income r))),
           (''effective_total_rate'', PStr (str_decimal (effective_total_rate r)))]"

definition TaxCalculationResult_from_dict :: "pyobj \<Rightarrow> error + TaxCalculationResult" where
  "TaxCalculationResult_from_dict data =
    bind_err (bind_err (getitem data ''gross_income'') to_Decimal) (\<lambda>gi.
    bind_err (bind_err (getitem data ''deductible_expenses'') to_Decimal) (\<lambda>de.
    bind_err (bind_err (getitem data ''taxable_income'') to_Decimal) (\<lambda>ti.
    bind_err (bind_err (getitem data ''income_tax'') IncomeTaxBreakdown_from_dict) (\<lambda>it.
    bind_err (bind_err (getitem data ''vat'') VATCalculation_from_dict) (\<lambda>v.
    bind_err (bind_err (getitem data ''social_security'') SocialSecurityCalculation_from_dict)
      (\<lambda>ss.
    bind_err (bind_err (getitem data ''total_taxes'') to_Decimal) (\<lambda>tt.
    bind_err (bind_err (getitem data ''total_obligations'') to_Decimal) (\<lambda>tob.
    bind_err (bind_err (getitem data ''net_income'') to_Decimal) (\<lambda>ni.
    bind_err (bind_err (getitem data ''effective_total_rate'') to_Decimal) (\<lambda>etr.
    Inr \<lparr>gross_income = gi, deductible_expenses = de, taxable_income = ti,
         income_tax = it, vat = v, social_security = ss, total_taxes = tt,
         total_obligations = tob, net_income = ni, effective_total_rate = etr\<rparr>))))))))))"

section \<open>Auxiliary notions for the proofs\<close>

text \<open>
  The closed form of the running total that the bracket loop accumulates for the configured
  table: each bracket taxes the slice of the income that lies inside it.
\<close>

definition marginal_tax :: "decimal \<Rightarrow> decimal" where
  "marginal_tax x =
     9 / 100 * min (max x 0) 10000
     + 22 / 100 * min (max (x - 10000) 0) 10000
     + 28 / 100 * min (max (x - 20000) 0) 10000
     + 36 / 100 * min (max (x - 30000) 0) 10000
     + 44 / 100 * max (x - 40000) 0"

text \<open>
  A bracket line as the calculator emits it: every amount in whole cents, and the upper bound
  either such an amount or the string \<open>'unlimited'\<close>.
\<close>

definition quantized_line :: "BracketBreakdown \<Rightarrow> bool" where
  "quantized_line b =
    (quantize2 (bracket_min b) = bracket_min b
     \<and> (case bracket_max b of Dec d \<Rightarrow> quantize2 d = d | Str s \<Rightarrow> s = ''unlimited'')
     \<and> quantize2 (bb_rate b) = bb_rate b
     \<and> quantize2 (taxable_amount b) = taxable_amount b
     \<and> quantize2 (tax_amount b) = tax_amount b)"

section \<open>Rounding to cents\<close>

lemma floor_rat_numeral_div [simp]:
  "\<lfloor>(numeral a / numeral b :: rat)\<rfloor> = numeral a div numeral b"
  by (metis floor_divide_of_int_eq of_int_numeral)

lemma floor_rat_one_div [simp]:
  "\<lfloor>(1 / numeral b :: rat)\<rfloor> = 1 div numeral b"
  by (metis floor_divide_of_int_eq of_int_numeral of_int_1)

lemma round_cents_nonneg: "0 \<le> x \<Longrightarrow> 0 \<le> round_cents x"
  by (simp add: round_cents_def)

lemma round_cents_nonpos: "x \<le> 0 \<Longrightarrow> round_cents x \<le> 0"
  by (simp add: round_cents_def)

lemma round_cents_mono: "x \<le> y \<Longrightarrow> round_cents x \<le> round_cents y"
proof -
  assume xy: "x \<le> y"
  show ?thesis
  proof (cases "0 \<le> x")
    case True
    with xy have "0 \<le> y" by simp
    with True xy show ?thesis
      by (simp add: round_cents_def floor_mono)
  next
    case False
    show ?thesis
    proof (cases "0 \<le> y")
      case True
      have "round_cents x \<le> 0" using False by (simp add: round_cents_nonpos)
      also have "0 \<le> round_cents y" using True by (rule round_cents_nonneg)
      finally show ?thesis .
    next
      case Fy: False
      have "\<lfloor>- y * 100 + 1 / 2\<rfloor> \<le> \<lfloor>- x * 100 + 1 / 2\<rfloor>"
        using xy by (intro floor_mono) simp
      then show ?thesis using False Fy by (simp add: round_cents_def)
    qed
  qed
qed

lemma quantize2_mono: "x \<le> y \<Longrightarrow> quantize2 x \<le> quantize2 y"
  by (simp add: quantize2_def round_cents_mono divide_right_mono)

lemma round_cents_of_int: "round_cents (of_int k / 100) = k"
proof -
  have "\<lfloor>(of_int k :: rat) + 1 / 2\<rfloor> = k" by linarith
  moreover have "\<lfloor>(of_int (- k) :: rat) + 1 / 2\<rfloor> = - k" by linarith
  ultimately show ?thesis by (simp add: round_cents_def)
qed

lemma quantize2_of_int: "quantize2 (of_int k / 100) = of_int k / 100"
  by (simp add: quantize2_def round_cents_of_int)

lemma quantize2_idem: "quantize2 (quantize2 x) = quantize2 x"
  unfolding quantize2_def[of x] by (rule quantize2_of_int)

lemma quantize2_0 [simp]: "quantize2 0 = 0"
  by (simp add: quantize2_def round_cents_def)


lemma quantize2_whole: "quantize2 (of_int k) = of_int k"
proof -
  have "(of_int k :: rat) = of_int (k * 100) / 100" by simp
  then show ?thesis by (metis quantize2_of_int)
qed

lemma quantize2_numeral [simp]: "quantize2 (numeral n) = numeral n"
  by (metis quantize2_whole of_int_numeral)

lemma quantize2_cents_diff_int:
  "quantize2 (of_int k / 100 - of_int m) = of_int k / 100 - of_int m"
proof -
  have "(of_int k / 100 - of_int m :: rat) = of_int (k - 100 * m) / 100"
    by (simp add: field_simps)
  then show ?thesis by (metis quantize2_of_int)
qed

lemma quantize2_cents_diff:
  "quantize2 (of_int k / 100 - numeral n) = of_int k / 100 - numeral n"
  using quantize2_cents_diff_int[of k "numeral n"] by simp

section \<open>Printing and parsing amounts\<close>

text \<open>
  \<open>str_nat\<close> prints a number with its digits and no sign, and \<open>nat_of_digits\<close> reads it back.
\<close>

declare str_nat.simps [simp del]

lemma is_digit_digit_char: "d < 10 \<Longrightarrow> is_digit (digit_char d)"
  by (simp add: is_digit_def digit_char_def)

lemma digit_val_digit_char: "d < 10 \<Longrightarrow> digit_val (digit_char d) = d"
  by (simp add: digit_val_def digit_char_def)

lemma is_digit_not_special:
  "is_digit c \<Longrightarrow> c \<noteq> CHR ''.'' \<and> c \<noteq> CHR ''-'' \<and> c \<noteq> CHR ''+'' \<and> c \<noteq> CHR ''u''"
  by (auto simp: is_digit_def)

lemma nat_of_digits_snoc: "nat_of_digits (s @ [c]) = 10 * nat_of_digits s + digit_val c"
  by (simp add: nat_of_digits_def)

lemma str_nat_digits: "list_all is_digit (str_nat n)"
proof (induction n rule: str_nat.induct)
  case (1 n)
  show ?case
  proof (cases "n < 10")
    case True
    then show ?thesis by (subst str_nat.simps) (simp add: is_digit_digit_char)
  next
    case False
    with 1 show ?thesis by (subst str_nat.simps) (simp add: is_digit_digit_char)
  qed
qed

lemma str_nat_nonempty: "str_nat n \<noteq> []"
  by (subst str_nat.simps) simp

lemma nat_of_digits_str_nat: "nat_of_digits (str_nat n) = n"
proof (induction n rule: str_nat.induct)
  case (1 n)
  show ?case
  proof (cases "n < 10")
    case True
    then show ?thesis
      by (subst str_nat.simps) (simp add: nat_of_digits_def digit_val_digit_char)
  next
    case False
    with 1 have "nat_of_digits (str_nat (n div 10)) = n div 10" by simp
    with False show ?thesis
      by (subst str_nat.simps) (simp add: nat_of_digits_snoc digit_val_digit_char)
  qed
qed

lemma nat_of_digits_two:
  "nat_of_digits (s @ [c, d]) = 100 * nat_of_digits s + 10 * digit_val c + digit_val d"
  using nat_of_digits_snoc[of "s @ [c]" d] by (simp add: nat_of_digits_snoc)

lemma split_sign_minus: "split_sign (CHR ''-'' # s) = (True, s)"
  by (simp add: split_sign_def)

lemma split_sign_digit: "s = c # r \<Longrightarrow> is_digit c \<Longrightarrow> split_sign s = (False, s)"
  using is_digit_not_special[of c] by (simp add: split_sign_def)

text \<open>Parsing digits, a point and more digits.\<close>

lemma Decimal_of_str_body:
  assumes ip: "list_all is_digit ip" and ne: "ip \<noteq> []" and fp: "list_all is_digit fp"
    and sp: "split_sign s = (neg, ip @ ''.'' @ fp)"
  shows "Decimal_of_str s
    = Some ((if neg then - 1 else 1) * (of_nat (nat_of_digits (ip @ fp)) / 10 ^ length fp))"
proof -
  have nodot: "\<And>c. c \<in> set ip \<Longrightarrow> c \<noteq> CHR ''.''"
    using ip is_digit_not_special by (auto simp: list_all_iff)
  have tw: "takeWhile (\<lambda>c. c \<noteq> CHR ''.'') (ip @ ''.'' @ fp) = ip"
    using nodot by simp
  have dw: "dropWhile (\<lambda>c. c \<noteq> CHR ''.'') (ip @ ''.'' @ fp) = ''.'' @ fp"
    using nodot by simp
  show ?thesis
    unfolding Decimal_of_str_def sp
    by (simp only: Let_def split tw dw) (simp add: ip fp ne)
qed

lemma str_nat_head: "\<exists>c r. str_nat n = c # r \<and> is_digit c"
  using str_nat_nonempty[of n] str_nat_digits[of n]
  by (cases "str_nat n") auto

text \<open>\<open>Decimal(str(d)) = d\<close> for a value in whole cents.\<close>

lemma Decimal_of_str_str_decimal:
  "Decimal_of_str (str_decimal (of_int k / 100)) = Some (of_int k / 100)"
proof -
  define a where "a = nat \<bar>k\<bar>"
  define ip where "ip = str_nat (a div 100)"
  define fp where "fp = [digit_char (a div 10 mod 10), digit_char (a mod 10)]"
  have fl: "\<lfloor>(of_int k / 100 :: rat) * 100\<rfloor> = k" by simp
  have sd: "str_decimal (of_int k / 100) = (if k < 0 then ''-'' else []) @ ip @ ''.'' @ fp"
    by (simp add: str_decimal_def fl Let_def a_def ip_def fp_def)
  have ipd: "list_all is_digit ip" and ipn: "ip \<noteq> []"
    by (simp_all add: ip_def str_nat_digits str_nat_nonempty)
  have fpd: "list_all is_digit fp" and fpl: "length fp = 2"
    by (simp_all add: fp_def is_digit_digit_char)
  have "100 * (a div 100) + 10 * (a div 10 mod 10) + a mod 10 = a"
  proof -
    have "a div 100 = a div 10 div 10" using div_mult2_eq[of a 10 10] by simp
    moreover have "10 * (a div 10) + a mod 10 = a" by (rule mult_div_mod_eq)
    moreover have "10 * (a div 10 div 10) + a div 10 mod 10 = a div 10" by (rule mult_div_mod_eq)
    ultimately show ?thesis by linarith
  qed
  then have num: "nat_of_digits (ip @ fp) = a"
    by (simp add: ip_def fp_def nat_of_digits_two nat_of_digits_str_nat digit_val_digit_char)
  obtain c r where cr: "ip = c # r" and dc: "is_digit c"
    using str_nat_head ip_def by blast
  have sp: "split_sign ((if k < 0 then ''-'' else []) @ ip @ ''.'' @ fp) = (k < 0, ip @ ''.'' @ fp)"
  proof (cases "k < 0")
    case True
    then show ?thesis by (simp add: split_sign_minus)
  next
    case False
    have "split_sign (ip @ ''.'' @ fp) = (False, ip @ ''.'' @ fp)"
      by (rule split_sign_digit[of _ c "r @ ''.'' @ fp"]) (simp_all add: cr dc)
    with False show ?thesis by simp
  qed
  have "Decimal_of_str (str_decimal (of_int k / 100))
      = Some ((if k < 0 then - 1 else 1) * (of_nat a / 10 ^ 2))"
    unfolding sd using Decimal_of_str_body[OF ipd ipn fpd sp] by (simp only: num fpl)
  moreover have "(if k < 0 then - 1 else 1) * (of_nat a / 10 ^ 2 :: rat) = of_int k / 100"
    by (simp add: a_def)
  ultimately show ?thesis by simp
qed

lemma str_decimal_not_unlimited: "str_decimal x \<noteq> ''unlimited''"
proof -
  obtain c r where cr: "str_nat (nat \<bar>\<lfloor>x * 100\<rfloor>\<bar> div 100) = c # r" and dc: "is_digit c"
    using str_nat_head by blast
  from is_digit_not_special[OF dc] show ?thesis
    by (simp add: str_decimal_def Let_def cr)
qed

lemma to_Decimal_str_decimal:
  "quantize2 x = x \<Longrightarrow> to_Decimal (PStr (str_decimal x)) = Inr x"
proof -
  assume q: "quantize2 x = x"
  then have "x = of_int (round_cents x) / 100" by (simp add: quantize2_def)
  then obtain k where xk: "x = of_int k / 100" ..
  show ?thesis unfolding xk by (simp add: to_Decimal_def Decimal_of_str_str_decimal)
qed

text \<open>Some amounts printed and read.\<close>

lemma digit_chars:
  "digit_char 0 = CHR ''0''" "digit_char 1 = CHR ''1''" "digit_char 2 = CHR ''2''"
  "digit_char 3 = CHR ''3''" "digit_char 4 = CHR ''4''" "digit_char 5 = CHR ''5''"
  "digit_char 6 = CHR ''6''" "digit_char 7 = CHR ''7''" "digit_char 8 = CHR ''8''"
  "digit_char 9 = CHR ''9''" "digit_char (Suc 0) = CHR ''1''"
  by code_simp+

lemma str_decimal_examples:
  "str_decimal (4317 / 100) = ''43.17''"
  "str_decimal (- (7 / 2)) = ''-3.50''"
  "str_decimal 0 = ''0.00''"
  by (simp_all add: str_decimal_def Let_def str_nat.simps digit_chars)

lemma Decimal_of_str_examples:
  "Decimal_of_str ''43.17'' = Some (4317 / 100)"
  "Decimal_of_str ''-3.50'' = Some (- (7 / 2))"
  "Decimal_of_str ''unlimited'' = None"
  by (simp_all add: Decimal_of_str_def split_sign_def is_digit_def nat_of_digits_def
      digit_val_def Let_def)

section \<open>The worked scenario\<close>

lemma all_taxes_60000_10000:
  "calculate_all_taxes 60000 10000 =
    \<lparr>gross_income = 60000, deductible_expenses = 10000, taxable_income = 50000,
     income_tax =
       \<lparr>total_tax = 13900, effective_rate = 139 / 5,
        bracket_breakdown =
          [\<lparr>bracket_min = 0, bracket_max = Dec 10000, bb_rate = 9,
            taxable_amount = 10000, tax_amount = 900\<rparr>,
           \<lparr>bracket_min = 10000, bracket_max = Dec 20000, bb_rate = 22,
            taxable_amount = 10000, tax_amount = 2200\<rparr>,
           \<lparr>bracket_min = 20000, bracket_max = Dec 30000, bb_rate = 28,
            taxable_amount = 10000, tax_amount = 2800\<rparr>,
           \<lparr>bracket_min = 30000, bracket_max = Dec 40000, bb_rate = 36,
            taxable_amount = 10000, tax_amount = 3600\<rparr>,
           \<lparr>bracket_min = 40000, bracket_max = Str ''unlimited'', bb_rate = 44,
            taxable_amount = 10000, tax_amount = 4400\<rparr>]\<rparr>,
     vat = \<lparr>vat_amount = 14400, vat_rate = 24\<rparr>,
     social_security =
       \<lparr>total_contribution = 12000, main_insurance = 7998,
        additional_contributions = 4002, ss_rate = 20\<rparr>,
     total_taxes = 25900, total_obligations = 40300, net_income = 34100,
     effective_total_rate = 4317 / 100\<rparr>"
  by code_simp

text \<open>
  C1. For gross income 60000 and deductible expenses 10000 the aggregate result has taxable
  income 50000.00, income tax 13900.00 with one bracket line for each of the five brackets,
  social security 12000.00, VAT 14400.00, total taxes 25900.00 and net income 34100.00.
\<close>

theorem scenario_60000_10000:
  "taxable_income (calculate_all_taxes 60000 10000) = 50000
   \<and> total_tax (income_tax (calculate_all_taxes 60000 10000)) = 13900
   \<and> map (\<lambda>b. (bracket_min b, bracket_max b))
        (bracket_breakdown (income_tax (calculate_all_taxes 60000 10000)))
      = [(0, Dec 10000), (10000, Dec 20000), (20000, Dec 30000), (30000, Dec 40000),
         (40000, Str ''unlimited'')]
   \<and> length (bracket_breakdown (income_tax (calculate_all_taxes 60000 10000)))
      = length INCOME_TAX_BRACKETS
   \<and> total_contribution (social_security (calculate_all_taxes 60000 10000)) = 12000
   \<and> vat_amount (vat (calculate_all_taxes 60000 10000)) = 14400
   \<and> total_taxes (calculate_all_taxes 60000 10000) = 25900
   \<and> net_income (calculate_all_taxes 60000 10000) = 34100"
  by (simp add: all_taxes_60000_10000 INCOME_TAX_BRACKETS_def)

section \<open>The bracket loop on the configured table\<close>

text \<open>
  What the loop returns for an income in each of the five ranges: the brackets below the
  income are consumed in full, the bracket holding the income takes the rest, and the loop
  stops there.
\<close>

lemma loop_b1:
  "0 < x \<Longrightarrow> x \<le> 10000 \<Longrightarrow>
   income_tax_loop INCOME_TAX_BRACKETS x 0 0 [] =
     (x * (9 / 100),
      [\<lparr>bracket_min = 0, bracket_max = Dec 10000, bb_rate = 9,
        taxable_amount = quantize2 x, tax_amount = quantize2 (x * (9 / 100))\<rparr>])"
  by (simp add: INCOME_TAX_BRACKETS_def Let_def min_def)

lemma loop_b2:
  "10000 < x \<Longrightarrow> x \<le> 20000 \<Longrightarrow>
   income_tax_loop INCOME_TAX_BRACKETS x 0 0 [] =
     (900 + (x - 10000) * (22 / 100),
      [\<lparr>bracket_min = 0, bracket_max = Dec 10000, bb_rate = 9,
        taxable_amount = 10000, tax_amount = 900\<rparr>,
       \<lparr>bracket_min = 10000, bracket_max = Dec 20000, bb_rate = 22,
        taxable_amount = quantize2 (x - 10000),
        tax_amount = quantize2 ((x - 10000) * (22 / 100))\<rparr>])"
  by (simp add: INCOME_TAX_BRACKETS_def Let_def min_def)

lemma loop_b3:
  "20000 < x \<Longrightarrow> x \<le> 30000 \<Longrightarrow>
   income_tax_loop INCOME_TAX_BRACKETS x 0 0 [] =
     (3100 + (x - 20000) * (28 / 100),
      [\<lparr>bracket_min = 0, bracket_max = Dec 10000, bb_rate = 9,
        taxable_amount = 10000, tax_amount = 900\<rparr>,
       \<lparr>bracket_min = 10000, bracket_max = Dec 20000, bb_rate = 22,
        taxable_amount = 10000, tax_amount = 2200\<rparr>,
       \<lparr>bracket_min = 20000, bracket_max = Dec 30000, bb_rate = 28,
        taxable_amount = quantize2 (x - 20000),
        tax_amount = quantize2 ((x - 20000) * (28 / 100))\<rparr>])"
  by (simp add: INCOME_TAX_BRACKETS_def Let_def min_def)

lemma loop_b4:
  "30000 < x \<Longrightarrow> x \<le> 40000 \<Longrightarrow>
   income_tax_loop INCOME_TAX_BRACKETS x 0 0 [] =
     (5900 + (x - 30000) * (36 / 100),
      [\<lparr>bracket_min = 0, bracket_max = Dec 10000, bb_rate = 9,
        taxable_amount = 10000, tax_amount = 900\<rparr>,
       \<lparr>bracket_min = 10000, bracket_max = Dec 20000, bb_rate = 22,
        taxable_amount = 10000, tax_amount = 2200\<rparr>,
       \<lparr>bracket_min = 20000, bracket_max = Dec 30000, bb_rate = 28,
        taxable_amount = 10000, tax_amount = 2800\<rparr>,
       \<lparr>bracket_min = 30000, bracket_max = Dec 40000, bb_rate = 36,
        taxable_amount = quantize2 (x - 30000),
        tax_amount = quantize2 ((x - 30000) * (36 / 100))\<rparr>])"
  by (simp add: INCOME_TAX_BRACKETS_def Let_def min_def)

lemma loop_b5:
  "40000 < x \<Longrightarrow>
   income_tax_loop INCOME_TAX_BRACKETS x 0 0 [] =
     (9500 + (x - 40000) * (44 / 100),
      [\<lparr>bracket_min = 0, bracket_max = Dec 10000, bb_rate = 9,
        taxable_amount = 10000, tax_amount = 900\<rparr>,
       \<lparr>bracket_min = 10000, bracket_max = Dec 20000, bb_rate = 22,
        taxable_amount = 10000, tax_amount = 2200\<rparr>,
       \<lparr>bracket_min = 20000, bracket_max = Dec 30000, bb_rate = 28,
        taxable_amount = 10000, tax_amount = 2800\<rparr>,
       \<lparr>bracket_min = 30000, bracket_max = Dec 40000, bb_rate = 36,
        taxable_amount = 10000, tax_amount = 3600\<rparr>,
       \<lparr>bracket_min = 40000, bracket_max = Str ''unlimited'', bb_rate = 44,
        taxable_amount = quantize2 (x - 40000),
        tax_amount = quantize2 ((x - 40000) * (44 / 100))\<rparr>])"
  by (simp add: INCOME_TAX_BRACKETS_def Let_def min_def)

lemma income_ranges:
  fixes x :: rat
  assumes "0 < x"
  obtains "x \<le> 10000" | "10000 < x" "x \<le> 20000" | "20000 < x" "x \<le> 30000"
    | "30000 < x" "x \<le> 40000" | "40000 < x"
  using assms by linarith

lemma loop_total: "0 < x \<Longrightarrow> fst (income_tax_loop INCOME_TAX_BRACKETS x 0 0 []) = marginal_tax x"
proof -
  assume pos: "0 < x"
  then show ?thesis
  proof (cases x rule: income_ranges)
    case 1 with pos show ?thesis by (simp add: loop_b1 marginal_tax_def)
  next
    case 2 then show ?thesis by (simp add: loop_b2 marginal_tax_def)
  next
    case 3 then show ?thesis by (simp add: loop_b3 marginal_tax_def)
  next
    case 4 then show ?thesis by (simp add: loop_b4 marginal_tax_def)
  next
    case 5 then show ?thesis by (simp add: loop_b5 marginal_tax_def)
  qed
qed

lemma marginal_tax_mono: "a \<le> b \<Longrightarrow> marginal_tax a \<le> marginal_tax b"
proof -
  assume ab: "a \<le> b"
  have 1: "min (max a 0) 10000 \<le> min (max b 0) 10000" using ab by linarith
  have 2: "min (max (a - 10000) 0) 10000 \<le> min (max (b - 10000) 0) 10000" using ab by linarith
  have 3: "min (max (a - 20000) 0) 10000 \<le> min (max (b - 20000) 0) 10000" using ab by linarith
  have 4: "min (max (a - 30000) 0) 10000 \<le> min (max (b - 30000) 0) 10000" using ab by linarith
  have 5: "max (a - 40000) 0 \<le> max (b - 40000) 0" using ab by linarith
  show ?thesis unfolding marginal_tax_def
    by (intro add_mono mult_left_mono 1 2 3 4 5) simp_all
qed

lemma marginal_tax_nonpos: "x \<le> 0 \<Longrightarrow> marginal_tax x = 0"
  by (simp add: marginal_tax_def)

lemma total_tax_eq: "total_tax (calculate_income_tax x) = quantize2 (marginal_tax x)"
proof (cases "x \<le> 0")
  case True
  then show ?thesis by (simp add: calculate_income_tax_def marginal_tax_nonpos)
next
  case False
  then have "0 < x" by simp
  from loop_total[OF this] False show ?thesis
    by (simp add: calculate_income_tax_def Let_def split_beta)
qed

section \<open>Bracket additivity\<close>

text \<open>
  C2 as stated fails: each line's \<open>taxable_amount\<close> is rounded to cents, so an income with
  more than two fractional digits is not recovered. For 10000.005 the two lines carry
  10000.00 and 0.01.
\<close>

theorem bracket_additivity_counterexample:
  "sum_list (map taxable_amount (bracket_breakdown (calculate_income_tax (2000001 / 200))))
   \<noteq> 2000001 / 200"
  by code_simp

text \<open>
  C2, amended. For every taxable income that is a positive whole number of cents, the
  \<open>taxable_amount\<close> fields of the bracket lines add up to the taxable income.
\<close>

theorem bracket_additivity_cents:
  assumes "0 < k"
  shows "sum_list (map taxable_amount
           (bracket_breakdown (calculate_income_tax (of_int k / 100)))) = of_int k / 100"
proof -
  define x :: rat where "x = of_int k / 100"
  have pos: "0 < x" using assms by (simp add: x_def)
  have bd: "bracket_breakdown (calculate_income_tax x) = snd (income_tax_loop INCOME_TAX_BRACKETS x 0 0 [])"
    using pos by (simp add: calculate_income_tax_def Let_def split_beta)
  have q: "quantize2 x = x" unfolding x_def by (rule quantize2_of_int)
  have qd: "\<And>n. quantize2 (x - numeral n) = x - numeral n"
    unfolding x_def by (rule quantize2_cents_diff)
  from pos have "sum_list (map taxable_amount (snd (income_tax_loop INCOME_TAX_BRACKETS x 0 0 []))) = x"
  proof (cases x rule: income_ranges)
    case 1 with pos show ?thesis by (simp add: loop_b1 q)
  next
    case 2 then show ?thesis by (simp add: loop_b2 qd)
  next
    case 3 then show ?thesis by (simp add: loop_b3 qd)
  next
    case 4 then show ?thesis by (simp add: loop_b4 qd)
  next
    case 5 then show ?thesis by (simp add: loop_b5 qd)
  qed
  then show ?thesis using bd by (simp add: x_def)
qed

theorem bracket_additivity_cents_witness:
  "(0::int) < 2500001
   \<and> sum_list (map taxable_amount
        (bracket_breakdown (calculate_income_tax (of_int 2500001 / 100)))) = of_int 2500001 / 100"
  using bracket_additivity_cents[of 2500001] by simp

section \<open>Monotonicity\<close>

text \<open>
  C3. Income tax is monotone: for taxable incomes \<open>0 \<le> a < b\<close> the total tax on \<open>a\<close> is at
  most the total tax on \<open>b\<close>.
\<close>

theorem income_tax_monotone:
  "0 \<le> a \<Longrightarrow> a < b \<Longrightarrow>
   total_tax (calculate_income_tax a) \<le> total_tax (calculate_income_tax b)"
  by (simp add: total_tax_eq quantize2_mono marginal_tax_mono)

theorem income_tax_monotone_witness:
  "(0::rat) \<le> 15000 \<and> (15000::rat) < 2500001 / 100
   \<and> total_tax (calculate_income_tax 15000) \<le> total_tax (calculate_income_tax (2500001 / 100))"
  using income_tax_monotone[of 15000 "2500001 / 100"] by simp

section \<open>Social security\<close>

lemma efka_total_rate: "EFKA_TOTAL_RATE = 20 / 100"
  by (simp add: EFKA_TOTAL_RATE_def EFKA_MAIN_RATE_def EFKA_ADDITIONAL_RATE_def)





section \<open>The aggregate result\<close>

text \<open>
  C4. For a fixed gross income the VAT amount and the total social-security contribution do
  not depend on the deductible expenses: both components are computed from the gross income
  alone.
\<close>

theorem gross_basis_invariant:
  "vat_amount (vat (calculate_all_taxes g e1)) = vat_amount (vat (calculate_all_taxes g e2))
   \<and> total_contribution (social_security (calculate_all_taxes g e1))
      = total_contribution (social_security (calculate_all_taxes g e2))
   \<and> vat (calculate_all_taxes g e1) = calculate_vat g
   \<and> social_security (calculate_all_taxes g e1) = calculate_social_security g"
  by (simp add: calculate_all_taxes_def Let_def calculate_vat_def calculate_social_security_def)

text \<open>The expenses do move the income tax and the net income.\<close>

lemma expenses_change_income_tax:
  "total_tax (income_tax (calculate_all_taxes 60000 10000)) = 13900
   \<and> total_tax (income_tax (calculate_all_taxes 60000 0)) = 18300
   \<and> net_income (calculate_all_taxes 60000 10000) = 34100
   \<and> net_income (calculate_all_taxes 60000 0) = 29700"
  by code_simp

text \<open>
  C5 as stated fails: the result for a gross income of zero is not all zero, since the VAT
  and social-security components carry their configured rates.
\<close>

theorem zero_income_rates_counterexample:
  "vat_rate (vat (calculate_all_taxes 0 0)) \<noteq> 0"
  by code_simp

text \<open>
  C5, amended. When the gross income is at most zero, the result has every amount at zero
  and no bracket lines; \<open>gross_income\<close> and \<open>deductible_expenses\<close> are the rounded inputs
  and the two rate fields are 24.00 and 20.00. For inputs \<open>(0, 0)\<close> every field other than
  the two rates is zero.
\<close>

theorem non_positive_gross_short_circuit:
  "g \<le> 0 \<Longrightarrow>
   calculate_all_taxes g e =
     \<lparr>gross_income = quantize2 g, deductible_expenses = quantize2 e, taxable_income = 0,
      income_tax = \<lparr>total_tax = 0, effective_rate = 0, bracket_breakdown = []\<rparr>,
      vat = \<lparr>vat_amount = 0, vat_rate = 24\<rparr>,
      social_security =
        \<lparr>total_contribution = 0, main_insurance = 0, additional_contributions = 0,
         ss_rate = 20\<rparr>,
      total_taxes = 0, total_obligations = 0, net_income = 0, effective_total_rate = 0\<rparr>"
  by (simp add: calculate_all_taxes_def calculate_income_tax_def calculate_vat_def
      calculate_social_security_def VAT_RATE_def efka_total_rate)

theorem non_positive_gross_short_circuit_witness:
  "(0::rat) \<le> 0
   \<and> calculate_all_taxes 0 0 =
     \<lparr>gross_income = 0, deductible_expenses = 0, taxable_income = 0,
      income_tax = \<lparr>total_tax = 0, effective_rate = 0, bracket_breakdown = []\<rparr>,
      vat = \<lparr>vat_amount = 0, vat_rate = 24\<rparr>,
      social_security =
        \<lparr>total_contribution = 0, main_insurance = 0, additional_contributions = 0,
         ss_rate = 20\<rparr>,
      total_taxes = 0, total_obligations = 0, net_income = 0, effective_total_rate = 0\<rparr>"
  using non_positive_gross_short_circuit[of 0 0] by simp

section \<open>The payment schedule\<close>

lemma valid_frequencies_set:
  "set VALID_FREQUENCIES = {''monthly'', ''quarterly'', ''annual''}"
  by (simp add: VALID_FREQUENCIES_def)


lemma payments_lookup:
  "map_of payments_per_year ''monthly'' = Some 12"
  "map_of payments_per_year ''quarterly'' = Some 4"
  "map_of payments_per_year ''annual'' = Some 1"
  by (simp_all add: payments_per_year_def)

lemma payment_schedule_valid:
  assumes "str_lower f \<in> set VALID_FREQUENCIES"
  shows "\<exists>n. (n = 12 \<or> n = 4 \<or> n = 1) \<and> map_of payments_per_year (str_lower f) = Some n \<and>
    calculate_payment_schedule a f =
      Inr \<lparr>annual_total = quantize2 (if a < 0 then 0 else a),
           frequency = str_lower f,
           number_of_installments = n,
           installment_amount = quantize2 ((if a < 0 then 0 else a) / of_int n),
           schedule =
             map (\<lambda>i. \<lparr>period_number = i,
                        payment_amount = quantize2 ((if a < 0 then 0 else a) / of_int n)\<rparr>)
               [1..n]\<rparr>"
proof -
  from assms consider "str_lower f = ''monthly''" | "str_lower f = ''quarterly''"
    | "str_lower f = ''annual''"
    by (auto simp: valid_frequencies_set)
  then show ?thesis
  proof cases
    case 1
    then show ?thesis
      by (intro exI[of _ 12]) (simp add: calculate_payment_schedule_def valid_frequencies_set payments_lookup Let_def)
  next
    case 2
    then show ?thesis
      by (intro exI[of _ 4]) (simp add: calculate_payment_schedule_def valid_frequencies_set payments_lookup Let_def)
  next
    case 3
    then show ?thesis
      by (intro exI[of _ 1]) (simp add: calculate_payment_schedule_def valid_frequencies_set payments_lookup Let_def)
  qed
qed







lemma lower_examples:
  "str_lower ''MONTHLY'' = ''monthly''"
  "str_lower ''Quarterly'' = ''quarterly''"
  "str_lower ''Monthly'' = ''monthly''"
  "str_lower ''weekly'' = ''weekly''"
  by code_simp+


text \<open>For 5000 paid monthly: twelve installments of 416.67, four cents above the total.\<close>

lemma schedule_5000_monthly:
  "calculate_payment_schedule 5000 ''Monthly'' =
     Inr \<lparr>annual_total = 5000, frequency = ''monthly'', number_of_installments = 12,
          installment_amount = 41667 / 100,
          schedule = map (\<lambda>i. \<lparr>period_number = i, payment_amount = 41667 / 100\<rparr>)
                       [1, 2, 3, 4, 5, 6, 7, 8, 9, 10, 11, 12]\<rparr>"
  by code_simp



text \<open>
  C10. For every frequency string that is accepted, in whatever letter case, the schedule
  returned stores the lowercased string in \<open>frequency\<close>, which is therefore one of
  \<open>monthly\<close>, \<open>quarterly\<close> and \<open>annual\<close>.
\<close>

theorem frequency_lowercased:
  "str_lower f \<in> set VALID_FREQUENCIES \<Longrightarrow>
   \<exists>s. calculate_payment_schedule a f = Inr s
     \<and> frequency s = str_lower f
     \<and> frequency s \<in> {''monthly'', ''quarterly'', ''annual''}"
proof -
  assume f: "str_lower f \<in> set VALID_FREQUENCIES"
  from payment_schedule_valid[OF f, of a] f show ?thesis
    by (auto simp: valid_frequencies_set)
qed

theorem frequency_lowercased_witness:
  "str_lower ''MONTHLY'' \<in> set VALID_FREQUENCIES
   \<and> (\<exists>s. calculate_payment_schedule 12000 ''MONTHLY'' = Inr s
         \<and> frequency s = ''monthly''
         \<and> frequency s \<in> {''monthly'', ''quarterly'', ''annual''})"
proof -
  have f: "str_lower ''MONTHLY'' \<in> set VALID_FREQUENCIES"
    by (simp add: lower_examples valid_frequencies_set)
  from frequency_lowercased[OF f, of 12000] f show ?thesis
    by (simp add: lower_examples)
qed

section \<open>Serialisation round trip\<close>

lemma bind_err_Inr [simp]: "bind_err (Inr x) f = f x"
  by (simp add: bind_err_def)

lemma getitem_PDict:
  "getitem (PDict items) k = (case map_of items k of None \<Rightarrow> Inl (KeyError k) | Some v \<Rightarrow> Inr v)"
  by (simp add: getitem_def)

lemma get_default_PDict:
  "get_default (PDict items) k d = (case map_of items k of None \<Rightarrow> Inr d | Some v \<Rightarrow> Inr v)"
  by (simp add: get_default_def)

lemma map_err_roundtrip:
  "(\<And>x. x \<in> set xs \<Longrightarrow> f (g x) = Inr x) \<Longrightarrow> map_err f (map g xs) = Inr xs"
  by (induction xs) simp_all

text \<open>
  Each class is read back from its dictionary as it was, provided its amounts are in whole
  cents, so that \<open>str\<close> prints them in full.
\<close>

lemma BracketBreakdown_roundtrip:
  assumes "quantized_line b"
  shows "BracketBreakdown_from_dict (BracketBreakdown_to_dict b) = Inr b"
proof -
  from assms have q: "quantize2 (bracket_min b) = bracket_min b"
    "quantize2 (bb_rate b) = bb_rate b" "quantize2 (taxable_amount b) = taxable_amount b"
    "quantize2 (tax_amount b) = tax_amount b"
    by (simp_all add: quantized_line_def)
  note d = q[THEN to_Decimal_str_decimal]
  show ?thesis
  proof (cases "bracket_max b")
    case (Dec x)
    with assms have "quantize2 x = x" by (simp add: quantized_line_def)
    then have dx: "to_Decimal (PStr (str_decimal x)) = Inr x" by (rule to_Decimal_str_decimal)
    have "Inr \<lparr>bracket_min = bracket_min b, bracket_max = Dec x, bb_rate = bb_rate b,
           taxable_amount = taxable_amount b, tax_amount = tax_amount b\<rparr> = Inr b"
      using Dec by simp
    then show ?thesis
      by (simp add: BracketBreakdown_from_dict_def BracketBreakdown_to_dict_def getitem_PDict
          Dec d dx str_decimal_not_unlimited)
  next
    case (Str x)
    with assms have x: "x = ''unlimited''" by (simp add: quantized_line_def)
    have "Inr \<lparr>bracket_min = bracket_min b, bracket_max = Str ''unlimited'', bb_rate = bb_rate b,
           taxable_amount = taxable_amount b, tax_amount = tax_amount b\<rparr> = Inr b"
      using Str x by simp
    then show ?thesis
      by (simp add: BracketBreakdown_from_dict_def BracketBreakdown_to_dict_def getitem_PDict
          Str x d)
  qed
qed

lemma IncomeTaxBreakdown_roundtrip:
  assumes "quantize2 (total_tax t) = total_tax t"
    and "quantize2 (effective_rate t) = effective_rate t"
    and "\<And>b. b \<in> set (bracket_breakdown t) \<Longrightarrow> quantized_line b"
  shows "IncomeTaxBreakdown_from_dict (IncomeTaxBreakdown_to_dict t) = Inr t"
proof -
  note d = assms(1,2)[THEN to_Decimal_str_decimal]
  have m: "map_err BracketBreakdown_from_dict (map BracketBreakdown_to_dict (bracket_breakdown t))
      = Inr (bracket_breakdown t)"
    by (rule map_err_roundtrip) (simp add: assms(3) BracketBreakdown_roundtrip)
  show ?thesis
    by (simp add: IncomeTaxBreakdown_from_dict_def IncomeTaxBreakdown_to_dict_def getitem_PDict
        get_default_PDict iterate_def d m)
qed

lemma VATCalculation_roundtrip:
  assumes "quantize2 (vat_amount v) = vat_amount v" and "quantize2 (vat_rate v) = vat_rate v"
  shows "VATCalculation_from_dict (VATCalculation_to_dict v) = Inr v"
proof -
  note d = assms[THEN to_Decimal_str_decimal]
  show ?thesis
    by (simp add: VATCalculation_from_dict_def VATCalculation_to_dict_def getitem_PDict d)
qed

lemma SocialSecurityCalculation_roundtrip:
  assumes "quantize2 (total_contribution c) = total_contribution c"
    and "quantize2 (main_insurance c) = main_insurance c"
    and "quantize2 (additional_contributions c) = additional_contributions c"
    and "quantize2 (ss_rate c) = ss_rate c"
  shows "SocialSecurityCalculation_from_dict (SocialSecurityCalculation_to_dict c) = Inr c"
proof -
  note d = assms[THEN to_Decimal_str_decimal]
  show ?thesis
    by (simp add: SocialSecurityCalculation_from_dict_def SocialSecurityCalculation_to_dict_def
        getitem_PDict d)
qed

lemma TaxCalculationResult_roundtrip:
  assumes "quantize2 (gross_income r) = gross_income r"
    and "quantize2 (deductible_expenses r) = deductible_expenses r"
    and "quantize2 (taxable_income r) = taxable_income r"
    and "quantize2 (total_taxes r) = total_taxes r"
    and "quantize2 (total_obligations r) = total_obligations r"
    and "quantize2 (net_income r) = net_income r"
    and "quantize2 (effective_total_rate r) = effective_total_rate r"
    and it: "IncomeTaxBreakdown_from_dict (IncomeTaxBreakdown_to_dict (income_tax r)) = Inr (income_tax r)"
    and v: "VATCalculation_from_dict (VATCalculation_to_dict (vat r)) = Inr (vat r)"
    and ss: "SocialSecurityCalculation_from_dict (SocialSecurityCalculation_to_dict (social_security r))
        = Inr (social_security r)"
  shows "TaxCalculationResult_from_dict (TaxCalculationResult_to_dict r) = Inr r"
proof -
  note d = assms(1-7)[THEN to_Decimal_str_decimal]
  show ?thesis
    by (simp add: TaxCalculationResult_from_dict_def TaxCalculationResult_to_dict_def
        getitem_PDict d it v ss)
qed

text \<open>
  Every amount the calculators store went through \<open>quantize\<close>: the bracket lines, whatever
  the bracket table, and the fields of each component.
\<close>

lemma loop_lines_quantized:
  "(\<And>b. b \<in> set bd \<Longrightarrow> quantized_line b) \<Longrightarrow>
   b \<in> set (snd (income_tax_loop brackets remaining previous tot bd)) \<Longrightarrow> quantized_line b"
proof (induction brackets arbitrary: remaining previous tot bd)
  case Nil
  then show ?case by simp
next
  case (Cons bracket brackets)
  show ?case
  proof (cases "remaining \<le> 0")
    case True
    with Cons.prems show ?thesis by simp
  next
    case False
    define taxable_in_bracket where "taxable_in_bracket =
      (case upper_limit bracket of Unbounded \<Rightarrow> remaining
       | Bounded bracket_limit \<Rightarrow> min remaining (bracket_limit - previous))"
    define line where "line =
      \<lparr>bracket_min = quantize2 previous,
       bracket_max = (case upper_limit bracket of Unbounded \<Rightarrow> Str ''unlimited''
                      | Bounded bracket_limit \<Rightarrow> Dec (quantize2 bracket_limit)),
       bb_rate = quantize2 (rate bracket * 100),
       taxable_amount = quantize2 taxable_in_bracket,
       tax_amount = quantize2 (taxable_in_bracket * rate bracket)\<rparr>"
    have ql: "quantized_line line"
      by (simp add: line_def quantized_line_def quantize2_idem split: limit.split)
    have step: "income_tax_loop (bracket # brackets) remaining previous tot bd =
      income_tax_loop brackets (remaining - taxable_in_bracket)
        (case upper_limit bracket of Unbounded \<Rightarrow> previous | Bounded bracket_limit \<Rightarrow> bracket_limit)
        (tot + taxable_in_bracket * rate bracket) (bd @ [line])"
      using False by (simp add: Let_def taxable_in_bracket_def line_def)
    have "\<And>b. b \<in> set (bd @ [line]) \<Longrightarrow> quantized_line b"
      using Cons.prems(1) ql by auto
    from Cons.IH[OF this] Cons.prems(2) show ?thesis
      unfolding step by blast
  qed
qed

lemma income_tax_quantized:
  "quantize2 (total_tax (calculate_income_tax x)) = total_tax (calculate_income_tax x)"
  "quantize2 (effective_rate (calculate_income_tax x)) = effective_rate (calculate_income_tax x)"
  "b \<in> set (bracket_breakdown (calculate_income_tax x)) \<Longrightarrow> quantized_line b"
proof -
  show "quantize2 (total_tax (calculate_income_tax x)) = total_tax (calculate_income_tax x)"
    by (simp add: calculate_income_tax_def Let_def split_beta quantize2_idem)
  show "quantize2 (effective_rate (calculate_income_tax x)) = effective_rate (calculate_income_tax x)"
    by (simp add: calculate_income_tax_def Let_def split_beta quantize2_idem)
  assume b: "b \<in> set (bracket_breakdown (calculate_income_tax x))"
  show "quantized_line b"
  proof (cases "x \<le> 0")
    case True
    with b show ?thesis by (simp add: calculate_income_tax_def)
  next
    case False
    with b have "b \<in> set (snd (income_tax_loop INCOME_TAX_BRACKETS x 0 0 []))"
      by (simp add: calculate_income_tax_def Let_def split_beta)
    then show ?thesis by (rule loop_lines_quantized[rotated]) simp
  qed
qed

lemma vat_quantized:
  "quantize2 (vat_amount (calculate_vat g)) = vat_amount (calculate_vat g)"
  "quantize2 (vat_rate (calculate_vat g)) = vat_rate (calculate_vat g)"
  by (simp_all add: calculate_vat_def quantize2_idem)

lemma social_security_quantized:
  "quantize2 (total_contribution (calculate_social_security g))
     = total_contribution (calculate_social_security g)"
  "quantize2 (main_insurance (calculate_social_security g))
     = main_insurance (calculate_social_security g)"
  "quantize2 (additional_contributions (calculate_social_security g))
     = additional_contributions (calculate_social_security g)"
  "quantize2 (ss_rate (calculate_social_security g)) = ss_rate (calculate_social_security g)"
  by (simp_all add: calculate_social_security_def quantize2_idem)

lemma all_taxes_components:
  "income_tax (calculate_all_taxes g e)
     = calculate_income_tax (if g \<le> 0 then 0 else calculate_taxable_income g e)"
  "vat (calculate_all_taxes g e) = calculate_vat (if g \<le> 0 then 0 else g)"
  "social_security (calculate_all_taxes g e)
     = calculate_social_security (if g \<le> 0 then 0 else g)"
  by (simp_all add: calculate_all_taxes_def Let_def)

lemma all_taxes_quantized:
  "quantize2 (gross_income (calculate_all_taxes g e)) = gross_income (calculate_all_taxes g e)"
  "quantize2 (deductible_expenses (calculate_all_taxes g e))
     = deductible_expenses (calculate_all_taxes g e)"
  "quantize2 (taxable_income (calculate_all_taxes g e)) = taxable_income (calculate_all_taxes g e)"
  "quantize2 (total_taxes (calculate_all_taxes g e)) = total_taxes (calculate_all_taxes g e)"
  "quantize2 (total_obligations (calculate_all_taxes g e))
     = total_obligations (calculate_all_taxes g e)"
  "quantize2 (net_income (calculate_all_taxes g e)) = net_income (calculate_all_taxes g e)"
  "quantize2 (effective_total_rate (calculate_all_taxes g e))
     = effective_total_rate (calculate_all_taxes g e)"
  by (simp_all add: calculate_all_taxes_def Let_def calculate_taxable_income_def quantize2_idem)

text \<open>
  C9. Serialising a result of \<open>calculate_all_taxes\<close> with \<open>to_dict\<close> and rebuilding it with
  \<open>from_dict\<close> succeeds and yields a result equal to the original in every field, the
  bracket lines and the VAT and social-security components included.
\<close>

theorem to_dict_from_dict_roundtrip:
  "TaxCalculationResult_from_dict (TaxCalculationResult_to_dict (calculate_all_taxes g e))
   = Inr (calculate_all_taxes g e)"
proof (rule TaxCalculationResult_roundtrip)
  show "IncomeTaxBreakdown_from_dict
      (IncomeTaxBreakdown_to_dict (income_tax (calculate_all_taxes g e)))
    = Inr (income_tax (calculate_all_taxes g e))"
    unfolding all_taxes_components
    by (rule IncomeTaxBreakdown_roundtrip) (rule income_tax_quantized, rule income_tax_quantized, erule income_tax_quantized)
  show "VATCalculation_from_dict (VATCalculation_to_dict (vat (calculate_all_taxes g e)))
    = Inr (vat (calculate_all_taxes g e))"
    unfolding all_taxes_components
    by (rule VATCalculation_roundtrip) (rule vat_quantized)+
  show "SocialSecurityCalculation_from_dict
      (SocialSecurityCalculation_to_dict (social_security (calculate_all_taxes g e)))
    = Inr (social_security (calculate_all_taxes g e))"
    unfolding all_taxes_components
    by (rule SocialSecurityCalculation_roundtrip) (rule social_security_quantized)+
qed (rule all_taxes_quantized)+

end
